theory Spec2Isabelle
  imports Main
begin

section \<open>Data model (users/models.py)\<close>

text \<open>
  Primary keys are UUIDs drawn by \<^verbatim>\<open>uuid.uuid4\<close>; the embedding takes them as natural
  numbers, and a freshly drawn key is an argument of the operation that draws it.
  Timestamps (\<^verbatim>\<open>timezone.now\<close>) are natural numbers, arguments in the same way.
\<close>

type_synonym uuid = nat
type_synonym datetime = nat

text \<open>A value of a \<^verbatim>\<open>JSONField\<close>.\<close>

datatype json =
    JNull
  | JBool bool
  | JNum int
  | JStr string
  | JArr "json list"
  | JObj "(string \<times> json) list"

text \<open>
  \<^verbatim>\<open>class BaseModel(models.Model)\<close>, abstract: the four columns every subclass
  inherits. The field \<^verbatim>\<open>id\<close> is written \<open>id'\<close>, since \<open>id\<close> is the identity
  function of HOL.
\<close>

record BaseModel =
  id' :: uuid
  created_at :: datetime
  updated_at :: datetime
  is_active :: bool

text \<open>
  \<^verbatim>\<open>class User(AbstractUser)\<close>. Of the columns inherited from \<^verbatim>\<open>AbstractUser\<close>
  the record keeps the ones the source reads or writes: \<^verbatim>\<open>username\<close>,
  \<^verbatim>\<open>is_active\<close> and \<^verbatim>\<open>is_superuser\<close>. The stored password hash is left out.
\<close>

record User =
  id' :: uuid
  username :: string
  email :: string
  display_name :: "string option"
  is_active :: bool
  is_superuser :: bool

text \<open>\<^verbatim>\<open>class Profile(BaseModel)\<close>; \<open>user\<close> is the key of the owning \<^verbatim>\<open>User\<close> row.\<close>

record Profile = BaseModel +
  user :: uuid
  gender :: string
  website :: "string option"
  bio :: "string option"
  avatar :: "string option"
  is_private :: bool
  is_verified :: bool
  is_professional :: bool
  links :: json
  posts :: "uuid list"
  reels :: "uuid list"
  stories :: "uuid list"
  saved_posts :: "uuid list"
  liked_posts :: "uuid list"
  highlights :: "uuid list"
  profile_views :: int

text \<open>\<^verbatim>\<open>class Follow(BaseModel)\<close>: a directed edge from \<open>follower\<close> to \<open>following\<close>.\<close>

record Follow = BaseModel +
  follower :: uuid
  following :: uuid

text \<open>\<^verbatim>\<open>ACCESS_LEVEL_CHOICES\<close>: the four values of \<^verbatim>\<open>Permission.level\<close>.\<close>

datatype access_level = NONE | VIEW | WRITE | FULL

definition ACCESS_LEVEL_CHOICES :: "(access_level \<times> string) list" where
  "ACCESS_LEVEL_CHOICES =
     [(NONE, ''No Access''), (VIEW, ''View Only''), (WRITE, ''Write''), (FULL, ''Full'')]"

text \<open>
  \<^verbatim>\<open>Resource\<close>, \<^verbatim>\<open>Permission\<close> and \<^verbatim>\<open>UserRole\<close> extend \<^verbatim>\<open>models.Model\<close>: their key
  is the automatic integer \<^verbatim>\<open>id\<close>. \<^verbatim>\<open>Role.permissions\<close>, a many-to-many field, is the
  list of the keys of the role's \<^verbatim>\<open>Permission\<close> rows.
\<close>

record Resource =
  id' :: nat
  name :: string
  description :: "string option"

record Permission =
  id' :: nat
  resource :: nat
  level :: access_level

record Role = BaseModel +
  name :: string
  description :: "string option"
  permissions :: "nat list"

record UserRole =
  id' :: nat
  user :: uuid
  role :: uuid
  assigned_at :: datetime

text \<open>
  The database: one table per model, a table being the list of its rows
  (\<^verbatim>\<open>Follow.objects\<close> is \<open>Follow_objects\<close>).
\<close>

record db =
  User_objects :: "User list"
  Profile_objects :: "Profile list"
  Follow_objects :: "Follow list"
  Resource_objects :: "Resource list"
  Permission_objects :: "Permission list"
  Role_objects :: "Role list"
  UserRole_objects :: "UserRole list"

text \<open>The exceptions of Django and Python that the modelled code can raise.\<close>

datatype exn = IntegrityError | ValidationError | TypeError | DataError

section \<open>Profile serialization (users/serializers.py, \<^verbatim>\<open>ProfileSerializer\<close>)\<close>

text \<open>
  The dictionary \<^verbatim>\<open>super().to_representation(instance)\<close> builds: every column of
  \<^verbatim>\<open>Profile\<close> but \<^verbatim>\<open>id\<close> (\<^verbatim>\<open>exclude = ["id"]\<close>), and the two
  \<^verbatim>\<open>SerializerMethodField\<close>s. The keys carry the prefix \<open>r_\<close> to keep them apart from
  the columns of the model.
\<close>

record ProfileDict =
  r_created_at :: datetime
  r_updated_at :: datetime
  r_is_active :: bool
  r_user :: uuid
  r_gender :: string
  r_website :: "string option"
  r_bio :: "string option"
  r_avatar :: "string option"
  r_is_private :: bool
  r_is_verified :: bool
  r_is_professional :: bool
  r_links :: json
  r_posts :: "uuid list"
  r_reels :: "uuid list"
  r_stories :: "uuid list"
  r_saved_posts :: "uuid list"
  r_liked_posts :: "uuid list"
  r_highlights :: "uuid list"
  r_profile_views :: int
  r_followers_count :: nat
  r_following_count :: nat

text \<open>
  What \<^verbatim>\<open>to_representation\<close> returns: the dictionary of all fields, or the dictionary
  with the single key \<^verbatim>\<open>"detail"\<close>.
\<close>

datatype representation =
    Fields ProfileDict
  | Detail string

text \<open>
  \<^verbatim>\<open>request.user\<close> is the \<^verbatim>\<open>User\<close> row of the authenticated caller, or Django's
  \<^verbatim>\<open>AnonymousUser\<close>. \<^verbatim>\<open>is_authenticated\<close> is true of the first and false of the second.
  The serializer context holds a request or none (\<^verbatim>\<open>self.context.get("request")\<close>).
\<close>

datatype request_user = AnonymousUser | Authenticated User

record request =
  user :: request_user

type_synonym serializer_context = "request option"

fun is_authenticated :: "request_user \<Rightarrow> bool" where
  "is_authenticated AnonymousUser = False"
| "is_authenticated (Authenticated u) = True"

text \<open>\<^verbatim>\<open>Follow.objects.filter(following=obj.user).count()\<close>\<close>

definition get_followers_count :: "db \<Rightarrow> Profile \<Rightarrow> nat" where
  "get_followers_count d obj =
     length (filter (\<lambda>f. following f = Profile.user obj) (Follow_objects d))"

text \<open>\<^verbatim>\<open>Follow.objects.filter(follower=obj.user).count()\<close>\<close>

definition get_following_count :: "db \<Rightarrow> Profile \<Rightarrow> nat" where
  "get_following_count d obj =
     length (filter (\<lambda>f. follower f = Profile.user obj) (Follow_objects d))"

text \<open>\<^verbatim>\<open>Follow.objects.filter(follower=a, following=b).exists()\<close>, for two keys.\<close>

definition follow_exists :: "db \<Rightarrow> uuid \<Rightarrow> uuid \<Rightarrow> bool" where
  "follow_exists d a b =
     (filter (\<lambda>f. follower f = a \<and> following f = b) (Follow_objects d) \<noteq> [])"

text \<open>\<^verbatim>\<open>super().to_representation(instance)\<close>: the \<^verbatim>\<open>ModelSerializer\<close> rendering.\<close>

definition super_to_representation :: "db \<Rightarrow> Profile \<Rightarrow> representation" where
  "super_to_representation d instance = Fields \<lparr>
     r_created_at = created_at instance,
     r_updated_at = updated_at instance,
     r_is_active = BaseModel.is_active instance,
     r_user = Profile.user instance,
     r_gender = gender instance,
     r_website = website instance,
     r_bio = bio instance,
     r_avatar = avatar instance,
     r_is_private = is_private instance,
     r_is_verified = is_verified instance,
     r_is_professional = is_professional instance,
     r_links = links instance,
     r_posts = posts instance,
     r_reels = reels instance,
     r_stories = stories instance,
     r_saved_posts = saved_posts instance,
     r_liked_posts = liked_posts instance,
     r_highlights = highlights instance,
     r_profile_views = profile_views instance,
     r_followers_count = get_followers_count d instance,
     r_following_count = get_following_count d instance \<rparr>"

text \<open>
  \<^verbatim>\<open>ProfileSerializer.to_representation\<close>, branch by branch.
  \<^verbatim>\<open>viewer != instance.user\<close> compares two \<^verbatim>\<open>User\<close> rows by primary key; an
  \<^verbatim>\<open>AnonymousUser\<close> is different from every row. The lookup
  \<^verbatim>\<open>Follow.objects.filter(follower=viewer, ...)\<close> takes a \<^verbatim>\<open>User\<close> row; handed an
  \<^verbatim>\<open>AnonymousUser\<close>, which is neither a row nor a UUID, the key field rejects the value
  with \<^verbatim>\<open>ValidationError\<close>.
\<close>

definition to_representation ::
  "db \<Rightarrow> serializer_context \<Rightarrow> Profile \<Rightarrow> exn + representation" where
  "to_representation d ctx instance =
     (case ctx of
        None \<Rightarrow> Inr (super_to_representation d instance)
      | Some req \<Rightarrow>
          (let viewer = request.user req in
           if is_private instance then
             (case viewer of
                AnonymousUser \<Rightarrow> Inl ValidationError
              | Authenticated v \<Rightarrow>
                  if User.id' v \<noteq> Profile.user instance then
                    (let is_follower = follow_exists d (User.id' v) (Profile.user instance) in
                     if \<not> is_follower
                     then Inr (Detail ''This profile is private. Follow to view details.'')
                     else Inr (super_to_representation d instance))
                  else Inr (super_to_representation d instance))
           else Inr (super_to_representation d instance)))"

text \<open>
  The call as a state transformer: the result, the instance after the call and the
  database after the call. The body of \<^verbatim>\<open>to_representation\<close> assigns to no attribute of
  \<^verbatim>\<open>instance\<close> and calls no writing method of the ORM (\<^verbatim>\<open>save\<close>, \<^verbatim>\<open>create\<close>,
  \<^verbatim>\<open>update\<close>, \<^verbatim>\<open>delete\<close>); its only database accesses are the \<^verbatim>\<open>filter\<close> queries
  above. So the instance and the database come back as they went in.
\<close>

definition to_representation_call ::
  "db \<Rightarrow> serializer_context \<Rightarrow> Profile \<Rightarrow> (exn + representation) \<times> Profile \<times> db" where
  "to_representation_call d ctx instance = (to_representation d ctx instance, instance, d)"

section \<open>Permission classes (users/permissions.py)\<close>

text \<open>
  \<^verbatim>\<open>IsAdmin.has_permission\<close>:
  \<^verbatim>\<open>request.user.is_authenticated and request.user.is_superuser\<close>. Python's \<^verbatim>\<open>and\<close>
  does not evaluate its right operand when the left one is false.
\<close>

definition IsAdmin_has_permission :: "db \<Rightarrow> request \<Rightarrow> bool" where
  "IsAdmin_has_permission d req =
     (is_authenticated (request.user req) \<and>
      (case request.user req of
         Authenticated u \<Rightarrow> is_superuser u
       | AnonymousUser \<Rightarrow> False))"

text \<open>
  The join \<^verbatim>\<open>role__name="USER"\<close>: the \<^verbatim>\<open>Role\<close> row with key \<open>rid\<close> carries the
  name \<open>n\<close>.
\<close>

definition role_has_name :: "db \<Rightarrow> uuid \<Rightarrow> string \<Rightarrow> bool" where
  "role_has_name d rid n =
     (filter (\<lambda>r. BaseModel.id' r = rid \<and> Role.name r = n) (Role_objects d) \<noteq> [])"

text \<open>
  \<^verbatim>\<open>IsNormalUser.has_permission\<close>:
  \<^verbatim>\<open>request.user.is_authenticated and
  request.user.user_roles.filter(role__name="USER").exists()\<close>.
\<close>

definition IsNormalUser_has_permission :: "db \<Rightarrow> request \<Rightarrow> bool" where
  "IsNormalUser_has_permission d req =
     (is_authenticated (request.user req) \<and>
      (case request.user req of
         Authenticated u \<Rightarrow>
           filter (\<lambda>ur. UserRole.user ur = User.id' u \<and> role_has_name d (UserRole.role ur) ''USER'')
             (UserRole_objects d) \<noteq> []
       | AnonymousUser \<Rightarrow> False))"

section \<open>Registration (users/serializers.py, \<^verbatim>\<open>RegisterSerializer.create\<close>)\<close>

text \<open>
  The dictionary \<^verbatim>\<open>validated_data\<close>, with the keys of \<^verbatim>\<open>Meta.fields\<close>; a key that
  may be missing is an option.
\<close>

record validated_data =
  username :: string
  email :: string
  password :: string
  display_name :: "string option"
  role :: "string option"
  mobile_number :: "string option"

text \<open>
  What one call of \<^verbatim>\<open>create\<close> draws from outside: the three keys \<^verbatim>\<open>uuid.uuid4\<close> may
  be asked for, and the clock.
\<close>

record draws =
  user_pk :: uuid
  profile_pk :: uuid
  role_pk :: uuid
  now :: datetime

text \<open>\<^verbatim>\<open>str.upper\<close>, on the ASCII letters.\<close>

definition upper_char :: "char \<Rightarrow> char" where
  "upper_char c =
     (let n = (of_char c :: nat) in if 97 \<le> n \<and> n \<le> 122 then char_of (n - 32) else c)"

definition upper :: "string \<Rightarrow> string" where
  "upper s = map upper_char s"

text \<open>
  \<^verbatim>\<open>User.objects.create_user(**validated_data)\<close>, after \<^verbatim>\<open>role\<close> was popped.
  \<^verbatim>\<open>User\<close> declares no field \<^verbatim>\<open>mobile_number\<close>, so the model's constructor refuses
  that keyword (\<^verbatim>\<open>TypeError\<close>); \<^verbatim>\<open>display_name\<close> holds 150 characters at most; the
  key, \<^verbatim>\<open>username\<close> and \<^verbatim>\<open>email\<close> are unique. Nothing is written when it raises.
\<close>

definition create_user :: "db \<Rightarrow> uuid \<Rightarrow> validated_data \<Rightarrow> exn + (User \<times> db)" where
  "create_user d k vd =
     (if mobile_number vd \<noteq> None then Inl TypeError
      else if (case validated_data.display_name vd of None \<Rightarrow> False | Some n \<Rightarrow> 150 < length n)
      then Inl DataError
      else if filter (\<lambda>u. User.id' u = k \<or> User.username u = validated_data.username vd
                           \<or> User.email u = validated_data.email vd) (User_objects d) \<noteq> []
      then Inl IntegrityError
      else
        (let u = \<lparr> User.id' = k,
                   User.username = validated_data.username vd,
                   User.email = validated_data.email vd,
                   User.display_name = validated_data.display_name vd,
                   User.is_active = True,
                   is_superuser = False \<rparr>
         in Inr (u, d\<lparr> User_objects := User_objects d @ [u] \<rparr>)))"

text \<open>
  \<^verbatim>\<open>Profile.objects.create(user=user)\<close>: every other column takes its declared default.
  The key is unique, and so is \<^verbatim>\<open>user\<close> (\<^verbatim>\<open>OneToOneField\<close>).
\<close>

definition Profile_objects_create :: "db \<Rightarrow> uuid \<Rightarrow> datetime \<Rightarrow> uuid \<Rightarrow> exn + db" where
  "Profile_objects_create d k t uid =
     (if filter (\<lambda>p. BaseModel.id' p = k \<or> Profile.user p = uid) (Profile_objects d) \<noteq> []
      then Inl IntegrityError
      else Inr (d\<lparr> Profile_objects := Profile_objects d @
        [\<lparr> BaseModel.id' = k, created_at = t, updated_at = t, BaseModel.is_active = True,
            Profile.user = uid, gender = ''unset'', website = None, bio = None, avatar = None,
            is_private = False, is_verified = False, is_professional = False,
            links = JArr [], posts = [], reels = [], stories = [], saved_posts = [],
            liked_posts = [], highlights = [], profile_views = 0 \<rparr>] \<rparr>))"

text \<open>
  \<^verbatim>\<open>Role.objects.get_or_create(name=n)\<close>: the row of that name, or a new one.
  \<^verbatim>\<open>name\<close> holds 128 characters at most and is unique.
\<close>

definition Role_objects_get_or_create ::
  "db \<Rightarrow> uuid \<Rightarrow> datetime \<Rightarrow> string \<Rightarrow> exn + (Role \<times> db)" where
  "Role_objects_get_or_create d k t n =
     (case filter (\<lambda>r. Role.name r = n) (Role_objects d) of
        r # _ \<Rightarrow> Inr (r, d)
      | [] \<Rightarrow>
          if 128 < length n then Inl DataError
          else if filter (\<lambda>r. BaseModel.id' r = k) (Role_objects d) \<noteq> [] then Inl IntegrityError
          else
            (let r = \<lparr> BaseModel.id' = k, created_at = t, updated_at = t,
                       BaseModel.is_active = True, Role.name = n, Role.description = None,
                       permissions = [] \<rparr>
             in Inr (r, d\<lparr> Role_objects := Role_objects d @ [r] \<rparr>)))"

text \<open>
  \<^verbatim>\<open>UserRole.objects.create(user=user, role=role)\<close>: the pair is unique
  (\<^verbatim>\<open>unique_together\<close>); the key is the next value of the table's sequence.
\<close>

definition UserRole_objects_create :: "db \<Rightarrow> datetime \<Rightarrow> uuid \<Rightarrow> uuid \<Rightarrow> exn + db" where
  "UserRole_objects_create d t uid rid =
     (if filter (\<lambda>ur. UserRole.user ur = uid \<and> UserRole.role ur = rid) (UserRole_objects d) \<noteq> []
      then Inl IntegrityError
      else Inr (d\<lparr> UserRole_objects := UserRole_objects d @
        [\<lparr> UserRole.id' = Suc (fold max (map UserRole.id' (UserRole_objects d)) 0),
            UserRole.user = uid, UserRole.role = rid, assigned_at = t \<rparr>] \<rparr>))"

text \<open>
  \<^verbatim>\<open>RegisterSerializer.create\<close>: the user returned or the exception raised, and the
  database after the call. The four statements run one after the other with no enclosing
  transaction, so the rows written before an exception stay.
\<close>

definition create :: "db \<Rightarrow> draws \<Rightarrow> validated_data \<Rightarrow> (exn + User) \<times> db" where
  "create d dr vd =
     (let role_name = (case validated_data.role vd of None \<Rightarrow> ''user'' | Some r \<Rightarrow> r) in
      case create_user d (user_pk dr) vd of
        Inl e \<Rightarrow> (Inl e, d)
      | Inr (u, d1) \<Rightarrow>
          (case Profile_objects_create d1 (profile_pk dr) (now dr) (User.id' u) of
             Inl e \<Rightarrow> (Inl e, d1)
           | Inr d2 \<Rightarrow>
               (case Role_objects_get_or_create d2 (role_pk dr) (now dr) (upper role_name) of
                  Inl e \<Rightarrow> (Inl e, d2)
                | Inr (r, d3) \<Rightarrow>
                    (case UserRole_objects_create d3 (now dr) (User.id' u) (BaseModel.id' r) of
                       Inl e \<Rightarrow> (Inl e, d3)
                     | Inr d4 \<Rightarrow> (Inr u, d4)))))"

section \<open>The operations of the service and its reachable states\<close>

text \<open>
  The entry points of the three source files, as one datatype. Only registration writes.
\<close>

datatype operation =
    Register draws validated_data
  | ViewProfile serializer_context Profile
  | CheckIsAdmin request
  | CheckIsNormalUser request

fun step :: "db \<Rightarrow> operation \<Rightarrow> db" where
  "step d (Register dr vd) = snd (create d dr vd)"
| "step d (ViewProfile ctx instance) = snd (snd (to_representation_call d ctx instance))"
| "step d (CheckIsAdmin req) = d"
| "step d (CheckIsNormalUser req) = d"

fun run :: "db \<Rightarrow> operation list \<Rightarrow> db" where
  "run d [] = d"
| "run d (x # xs) = run (step d x) xs"

definition empty_db :: db where
  "empty_db = \<lparr> User_objects = [], Profile_objects = [], Follow_objects = [],
     Resource_objects = [], Permission_objects = [], Role_objects = [],
     UserRole_objects = [] \<rparr>"

text \<open>
  A key drawn by \<^verbatim>\<open>uuid.uuid4\<close> for a new \<^verbatim>\<open>Profile\<close> row is not the key of a row
  already there.
\<close>

fun fresh_draw :: "db \<Rightarrow> operation \<Rightarrow> bool" where
  "fresh_draw d (Register dr vd) =
     (filter (\<lambda>p. BaseModel.id' p = profile_pk dr) (Profile_objects d) = [])"
| "fresh_draw d _ = True"

fun fresh_run :: "db \<Rightarrow> operation list \<Rightarrow> bool" where
  "fresh_run d [] = True"
| "fresh_run d (x # xs) = (fresh_draw d x \<and> fresh_run (step d x) xs)"

text \<open>The number of \<^verbatim>\<open>Profile\<close> rows of a user.\<close>

definition profile_count :: "db \<Rightarrow> uuid \<Rightarrow> nat" where
  "profile_count d uid = length (filter (\<lambda>p. Profile.user p = uid) (Profile_objects d))"

text \<open>
  The invariant: every \<^verbatim>\<open>Profile\<close> row belongs to a \<^verbatim>\<open>User\<close> row (the foreign key),
  and every \<^verbatim>\<open>User\<close> row has exactly one \<^verbatim>\<open>Profile\<close> row.
\<close>

definition one_profile_per_user :: "db \<Rightarrow> bool" where
  "one_profile_per_user d =
     ((\<forall>p \<in> set (Profile_objects d). Profile.user p \<in> set (map User.id' (User_objects d))) \<and>
      (\<forall>u \<in> set (User_objects d). profile_count d (User.id' u) = 1))"

section \<open>Graph Store\<close>

datatype graph_error = SelfFollowError | DuplicateEdgeError

text \<open>
  Modelled from the spec: \<^verbatim>\<open>IsFollowing(follower, following)\<close>, the membership test of
  the Graph Store (section 4.1), which the source files do not define as an operation.
  It is the query \<^verbatim>\<open>Follow.objects.filter(follower=..., following=...).exists()\<close> that
  \<^verbatim>\<open>to_representation\<close> runs.
\<close>

definition IsFollowing :: "db \<Rightarrow> uuid \<Rightarrow> uuid \<Rightarrow> bool" where
  "IsFollowing d a b = follow_exists d a b"

text \<open>
  Modelled from the spec: \<^verbatim>\<open>AddEdge(follower, following)\<close> of the Graph Store
  (section 4.1), missing from the source files, which declare the \<^verbatim>\<open>Follow\<close> model
  and no operation that writes it. In the spec's words: it fails with
  \<^verbatim>\<open>SelfFollowError\<close> if follower == following; fails with \<^verbatim>\<open>DuplicateEdgeError\<close> if
  the edge exists; otherwise creates the edge and returns success. The edge created is a
  \<^verbatim>\<open>Follow\<close> row with the defaults of \<^verbatim>\<open>BaseModel\<close>, its key \<open>k\<close> and the time \<open>t\<close>.
\<close>

definition AddEdge :: "db \<Rightarrow> uuid \<Rightarrow> datetime \<Rightarrow> uuid \<Rightarrow> uuid \<Rightarrow> graph_error + db" where
  "AddEdge d k t a b =
     (if a = b then Inl SelfFollowError
      else if IsFollowing d a b then Inl DuplicateEdgeError
      else Inr (d\<lparr> Follow_objects := Follow_objects d @
        [\<lparr> BaseModel.id' = k, created_at = t, updated_at = t, BaseModel.is_active = True,
            follower = a, following = b \<rparr>] \<rparr>))"

text \<open>
  Modelled from the spec: \<^verbatim>\<open>RemoveEdge(follower, following)\<close> of the Graph Store
  (section 4.1), missing from the source files. In the spec's words: an idempotent no-op
  (success) if the edge is absent; else it removes the edge.
\<close>

definition RemoveEdge :: "db \<Rightarrow> uuid \<Rightarrow> uuid \<Rightarrow> graph_error + db" where
  "RemoveEdge d a b =
     (if \<not> IsFollowing d a b then Inr d
      else Inr (d\<lparr> Follow_objects :=
        filter (\<lambda>f. \<not> (follower f = a \<and> following f = b)) (Follow_objects d) \<rparr>))"

text \<open>No row of the \<^verbatim>\<open>Follow\<close> table leads from a user to the same user.\<close>

definition no_self_edge :: "db \<Rightarrow> bool" where
  "no_self_edge d = (filter (\<lambda>f. follower f = following f) (Follow_objects d) = [])"

section \<open>RBAC Store and Permission Resolver\<close>

text \<open>
  The order of the access levels, NONE < VIEW < WRITE < FULL: the position of the level in
  \<^verbatim>\<open>ACCESS_LEVEL_CHOICES\<close>.
\<close>

fun level_rank :: "access_level \<Rightarrow> nat" where
  "level_rank NONE = 0"
| "level_rank VIEW = 1"
| "level_rank WRITE = 2"
| "level_rank FULL = 3"

definition max_level :: "access_level \<Rightarrow> access_level \<Rightarrow> access_level" where
  "max_level a b = (if level_rank a \<le> level_rank b then b else a)"

text \<open>The roles assigned to an identity: the \<^verbatim>\<open>Role\<close> rows its \<^verbatim>\<open>UserRole\<close> rows name.\<close>

definition assigned_roles :: "db \<Rightarrow> uuid \<Rightarrow> Role list" where
  "assigned_roles d uid =
     filter (\<lambda>r. filter (\<lambda>ur. UserRole.user ur = uid \<and> UserRole.role ur = BaseModel.id' r)
                    (UserRole_objects d) \<noteq> [])
       (Role_objects d)"

text \<open>
  The permissions of a role, each as the pair of its resource's name and its level. A
  \<^verbatim>\<open>Permission\<close> row whose \<^verbatim>\<open>Resource\<close> row is gone names no resource and gives no pair.
\<close>

definition resource_name :: "db \<Rightarrow> nat \<Rightarrow> string option" where
  "resource_name d rid =
     (case filter (\<lambda>x. Resource.id' x = rid) (Resource_objects d) of
        [] \<Rightarrow> None
      | x # _ \<Rightarrow> Some (Resource.name x))"

definition role_grants :: "db \<Rightarrow> Role \<Rightarrow> (string \<times> access_level) list" where
  "role_grants d r =
     concat (map (\<lambda>p. case resource_name d (Permission.resource p) of
                         None \<Rightarrow> []
                       | Some n \<Rightarrow> [(n, level p)])
               (filter (\<lambda>p. Permission.id' p \<in> set (permissions r)) (Permission_objects d)))"

text \<open>The union over all assigned roles' permissions.\<close>

definition grants :: "db \<Rightarrow> uuid \<Rightarrow> (string \<times> access_level) list" where
  "grants d uid = concat (map (role_grants d) (assigned_roles d uid))"

text \<open>
  One permission enters the table of resolved entries: a resource already there keeps
  the greater of the two levels.
\<close>

fun insert_max ::
  "string \<times> access_level \<Rightarrow> (string \<times> access_level) list \<Rightarrow> (string \<times> access_level) list" where
  "insert_max (n, l) [] = [(n, l)]"
| "insert_max (n, l) ((n', l') # es) =
     (if n = n' then (n', max_level l' l) # es else (n', l') # insert_max (n, l) es)"

text \<open>
  Modelled from the spec: \<^verbatim>\<open>Resolve(identityID)\<close> of the RBAC Store (section 4.2),
  missing from the source files, which declare \<^verbatim>\<open>Resource\<close>, \<^verbatim>\<open>Permission\<close>,
  \<^verbatim>\<open>Role\<close> and \<^verbatim>\<open>UserRole\<close> and no code that walks them. In the spec's words: the
  (resource name, maximum access level) pairs reachable through all of the identity's role
  assignments; union over all assigned roles' permissions; for permissions sharing the
  same resource, take the maximum access level.
\<close>

definition Resolve :: "db \<Rightarrow> uuid \<Rightarrow> (string \<times> access_level) list" where
  "Resolve d uid = fold insert_max (grants d uid) []"

datatype store_error = NotFoundError

datatype decision = Allow | Deny

text \<open>The identity with a key, or \<^verbatim>\<open>NotFoundError\<close>.\<close>

definition fetch_identity :: "db \<Rightarrow> uuid \<Rightarrow> store_error + User" where
  "fetch_identity d uid =
     (case filter (\<lambda>u. User.id' u = uid) (User_objects d) of
        [] \<Rightarrow> Inl NotFoundError
      | u # _ \<Rightarrow> Inr u)"

text \<open>The resolved entry of a resource, or \<^verbatim>\<open>NotFoundError\<close>.\<close>

definition find_entry :: "(string \<times> access_level) list \<Rightarrow> string \<Rightarrow> store_error + access_level" where
  "find_entry es n = (case map_of es n of None \<Rightarrow> Inl NotFoundError | Some l \<Rightarrow> Inr l)"

text \<open>
  Modelled from the spec: \<^verbatim>\<open>Authorize(identityID, resourceName, requiredLevel)\<close> of the
  Permission Resolver (section 4.3), missing from the source files, whose permission
  classes test the superuser flag and the membership in the role \<^verbatim>\<open>USER\<close> and read no
  resource and no level. In the spec's words: fetch the identity; if inactive or
  nonexistent, Deny; otherwise call \<^verbatim>\<open>Resolve\<close>; find the entry for the resource name;
  Deny if absent; else Allow iff the resolved access level is at least the required one.
\<close>

definition Authorize :: "db \<Rightarrow> uuid \<Rightarrow> string \<Rightarrow> access_level \<Rightarrow> decision" where
  "Authorize d identityID resourceName requiredLevel =
     (case fetch_identity d identityID of
        Inl NotFoundError \<Rightarrow> Deny
      | Inr u \<Rightarrow>
          if \<not> User.is_active u then Deny
          else
            (case find_entry (Resolve d identityID) resourceName of
               Inl NotFoundError \<Rightarrow> Deny
             | Inr l \<Rightarrow> if level_rank requiredLevel \<le> level_rank l then Allow else Deny))"

text \<open>
  What "exactly the maximum access level among the permissions for a resource" says: the
  levels granted for a resource name, and a level that is one of them and below none.
\<close>

definition levels_for :: "(string \<times> access_level) list \<Rightarrow> string \<Rightarrow> access_level list" where
  "levels_for gs n = map snd (filter (\<lambda>g. fst g = n) gs)"

definition max_among :: "access_level list \<Rightarrow> access_level \<Rightarrow> bool" where
  "max_among ls l = (l \<in> set ls \<and> (\<forall>x \<in> set ls. level_rank x \<le> level_rank l))"

section \<open>Example data\<close>

definition alice :: User where
  "alice = \<lparr> User.id' = 1, User.username = ''alice'', User.email = ''alice@example.org'',
     User.display_name = None, User.is_active = True, is_superuser = False \<rparr>"

definition bob :: User where
  "bob = \<lparr> User.id' = 2, User.username = ''bobby'', User.email = ''bob@example.org'',
     User.display_name = Some ''Bob'', User.is_active = True, is_superuser = False \<rparr>"

definition carol :: User where
  "carol = \<lparr> User.id' = 3, User.username = ''carol'', User.email = ''carol@example.org'',
     User.display_name = None, User.is_active = False, is_superuser = True \<rparr>"

text \<open>Two private profiles of alice that differ in bio, links and counters, and a public one.\<close>

definition private_profile :: Profile where
  "private_profile = \<lparr> BaseModel.id' = 10, created_at = 1, updated_at = 1,
     BaseModel.is_active = True, Profile.user = 1, gender = ''unset'', website = None,
     bio = Some ''hello'', avatar = None, is_private = True, is_verified = False,
     is_professional = False, links = JArr [], posts = [], reels = [], stories = [],
     saved_posts = [], liked_posts = [], highlights = [], profile_views = 7 \<rparr>"

definition private_profile' :: Profile where
  "private_profile' = \<lparr> BaseModel.id' = 10, created_at = 1, updated_at = 9,
     BaseModel.is_active = True, Profile.user = 1, gender = ''other'',
     website = Some ''https://example.org'', bio = Some ''something else'', avatar = None,
     is_private = True, is_verified = True, is_professional = False,
     links = JArr [JStr ''https://example.org/a''], posts = [41, 42], reels = [],
     stories = [], saved_posts = [], liked_posts = [43], highlights = [],
     profile_views = 1000 \<rparr>"

definition public_profile :: Profile where
  "public_profile = private_profile \<lparr> is_private := False \<rparr>"

definition follow_row :: "uuid \<Rightarrow> uuid \<Rightarrow> uuid \<Rightarrow> Follow" where
  "follow_row k a b = \<lparr> BaseModel.id' = k, created_at = 2, updated_at = 2,
     BaseModel.is_active = True, follower = a, following = b \<rparr>"

text \<open>A database where carol follows alice, and one where bob does too.\<close>

definition db_carol_follows :: db where
  "db_carol_follows = empty_db \<lparr> User_objects := [alice, bob, carol],
     Profile_objects := [private_profile], Follow_objects := [follow_row 20 3 1] \<rparr>"

definition db_bob_follows :: db where
  "db_bob_follows = db_carol_follows \<lparr> Follow_objects := [follow_row 20 3 1, follow_row 21 2 1] \<rparr>"

definition as_bob :: serializer_context where
  "as_bob = Some \<lparr> request.user = Authenticated bob \<rparr>"

text \<open>
  Roles: alice holds two roles, one granting VIEW on posts and NONE on reels, the other
  FULL and NONE on posts; carol, inactive, holds the first; bob holds none.
\<close>

definition db_rbac :: db where
  "db_rbac = empty_db \<lparr>
     User_objects := [alice, bob, carol],
     Resource_objects :=
       [\<lparr> Resource.id' = 1, Resource.name = ''posts'', Resource.description = None \<rparr>,
        \<lparr> Resource.id' = 2, Resource.name = ''reels'', Resource.description = None \<rparr>],
     Permission_objects :=
       [\<lparr> Permission.id' = 1, resource = 1, level = VIEW \<rparr>,
        \<lparr> Permission.id' = 2, resource = 1, level = FULL \<rparr>,
        \<lparr> Permission.id' = 3, resource = 2, level = NONE \<rparr>,
        \<lparr> Permission.id' = 4, resource = 1, level = NONE \<rparr>],
     Role_objects :=
       [\<lparr> BaseModel.id' = 100, created_at = 1, updated_at = 1, BaseModel.is_active = True,
           Role.name = ''USER'', Role.description = None, permissions = [1, 3] \<rparr>,
        \<lparr> BaseModel.id' = 101, created_at = 1, updated_at = 1, BaseModel.is_active = True,
           Role.name = ''EDITOR'', Role.description = None, permissions = [2, 4] \<rparr>],
     UserRole_objects :=
       [\<lparr> UserRole.id' = 1, UserRole.user = 1, UserRole.role = 100, assigned_at = 1 \<rparr>,
        \<lparr> UserRole.id' = 2, UserRole.user = 1, UserRole.role = 101, assigned_at = 1 \<rparr>,
        \<lparr> UserRole.id' = 3, UserRole.user = 3, UserRole.role = 100, assigned_at = 1 \<rparr>] \<rparr>"

text \<open>Two registrations, with a profile view and a permission check in between.\<close>

definition register_alice :: operation where
  "register_alice = Register \<lparr> user_pk = 1, profile_pk = 10, role_pk = 100, now = 5 \<rparr>
     \<lparr> validated_data.username = ''alice'', validated_data.email = ''alice@example.org'',
       password = ''Secret#123'', validated_data.display_name = None,
       validated_data.role = None, mobile_number = None \<rparr>"

definition register_bob :: operation where
  "register_bob = Register \<lparr> user_pk = 2, profile_pk = 11, role_pk = 101, now = 6 \<rparr>
     \<lparr> validated_data.username = ''bobby'', validated_data.email = ''bob@example.org'',
       password = ''Secret#456'', validated_data.display_name = Some ''Bob'',
       validated_data.role = Some ''admin'', mobile_number = None \<rparr>"

definition example_run :: "operation list" where
  "example_run = [register_alice, ViewProfile as_bob private_profile,
     CheckIsAdmin \<lparr> request.user = AnonymousUser \<rparr>, register_bob]"

section \<open>Profile visibility\<close>

text \<open>
  Claim C1. With a request in the context, whose user is the identity \<open>v\<close>,
  \<^verbatim>\<open>to_representation\<close> gives the rules of \<^verbatim>\<open>ResolveProfileView\<close> in their order: the
  owner gets the full dictionary; otherwise a profile that is not private gives the full
  dictionary; otherwise the full dictionary goes to a viewer with a follow edge to the
  owner, and the dictionary with the single key \<^verbatim>\<open>detail\<close> to every other viewer.
\<close>

theorem to_representation_rules:
  "to_representation d (Some \<lparr> request.user = Authenticated v \<rparr>) p =
     (if User.id' v = Profile.user p then Inr (super_to_representation d p)
      else if \<not> is_private p then Inr (super_to_representation d p)
      else if follow_exists d (User.id' v) (Profile.user p)
        then Inr (super_to_representation d p)
        else Inr (Detail ''This profile is private. Follow to view details.''))"
  by (simp add: to_representation_def)

theorem to_representation_rules_witness:
  "to_representation db_carol_follows (Some \<lparr> request.user = Authenticated alice \<rparr>) private_profile
     = Inr (super_to_representation db_carol_follows private_profile) \<and>
   to_representation db_carol_follows (Some \<lparr> request.user = Authenticated bob \<rparr>) public_profile
     = Inr (super_to_representation db_carol_follows public_profile) \<and>
   to_representation db_bob_follows (Some \<lparr> request.user = Authenticated bob \<rparr>) private_profile
     = Inr (super_to_representation db_bob_follows private_profile) \<and>
   to_representation db_carol_follows (Some \<lparr> request.user = Authenticated bob \<rparr>) private_profile
     = Inr (Detail ''This profile is private. Follow to view details.'')"
  using to_representation_rules [of db_carol_follows alice private_profile]
    to_representation_rules [of db_carol_follows bob public_profile]
    to_representation_rules [of db_bob_follows bob private_profile]
    to_representation_rules [of db_carol_follows bob private_profile]
  by (simp add: alice_def bob_def private_profile_def public_profile_def follow_exists_def
      db_carol_follows_def db_bob_follows_def follow_row_def empty_db_def)

text \<open>
  Claim C10. With no request in the serializer context, \<^verbatim>\<open>to_representation\<close> returns
  the full dictionary of every profile, private or not, whatever the follow edges: the
  privacy test is not reached.
\<close>

theorem to_representation_without_request:
  "to_representation d None p = Inr (super_to_representation d p)"
  by (simp add: to_representation_def)

theorem to_representation_without_request_witness:
  "is_private private_profile \<and> Follow_objects empty_db = [] \<and>
   to_representation empty_db None private_profile
     = Inr (super_to_representation empty_db private_profile)"
  using to_representation_without_request [of empty_db private_profile]
  by (simp add: private_profile_def empty_db_def)

text \<open>
  Claim C5. The redacted result carries the reason and nothing of the profile: for two
  private profiles of one owner, and a viewer who is not the owner and has no follow edge
  to the owner in either database, the two results are the same dictionary, the one with
  the single key \<^verbatim>\<open>detail\<close>, whatever the other fields of the profiles and the other
  rows of the databases are.
\<close>

theorem redacted_reveals_nothing:
  assumes "Profile.user p1 = Profile.user p2"
    and "is_private p1" and "is_private p2"
    and "User.id' v \<noteq> Profile.user p1"
    and "\<not> follow_exists d1 (User.id' v) (Profile.user p1)"
    and "\<not> follow_exists d2 (User.id' v) (Profile.user p2)"
  shows "to_representation d1 (Some \<lparr> request.user = Authenticated v \<rparr>) p1
           = to_representation d2 (Some \<lparr> request.user = Authenticated v \<rparr>) p2
       \<and> to_representation d1 (Some \<lparr> request.user = Authenticated v \<rparr>) p1
           = Inr (Detail ''This profile is private. Follow to view details.'')"
  using assms by (simp add: to_representation_def)

theorem redacted_reveals_nothing_witness:
  "bio private_profile \<noteq> bio private_profile' \<and>
   links private_profile \<noteq> links private_profile' \<and>
   profile_views private_profile \<noteq> profile_views private_profile' \<and>
   get_followers_count db_carol_follows private_profile
     \<noteq> get_followers_count empty_db private_profile' \<and>
   to_representation db_carol_follows (Some \<lparr> request.user = Authenticated bob \<rparr>) private_profile
     = to_representation empty_db (Some \<lparr> request.user = Authenticated bob \<rparr>) private_profile'"
proof -
  have h: "Profile.user private_profile = Profile.user private_profile'"
    "is_private private_profile" "is_private private_profile'"
    "User.id' bob \<noteq> Profile.user private_profile"
    "\<not> follow_exists db_carol_follows (User.id' bob) (Profile.user private_profile)"
    "\<not> follow_exists empty_db (User.id' bob) (Profile.user private_profile')"
    by (simp_all add: private_profile_def private_profile'_def bob_def follow_exists_def
        db_carol_follows_def follow_row_def empty_db_def)
  have "bio private_profile \<noteq> bio private_profile'"
    "links private_profile \<noteq> links private_profile'"
    "profile_views private_profile \<noteq> profile_views private_profile'"
    "get_followers_count db_carol_follows private_profile
       \<noteq> get_followers_count empty_db private_profile'"
    by (simp_all add: private_profile_def private_profile'_def get_followers_count_def
        db_carol_follows_def follow_row_def empty_db_def)
  with redacted_reveals_nothing [OF h] show ?thesis by simp
qed

text \<open>
  Claim C4, as amended. A call of \<^verbatim>\<open>to_representation\<close> changes neither the view
  counter nor any other field of the profile, and writes nothing to the database, in every
  outcome: the full dictionary for a viewer who is not the owner, the full dictionary for
  the owner, and the redacted one.
\<close>

theorem to_representation_writes_nothing:
  "profile_views (fst (snd (to_representation_call d ctx instance))) = profile_views instance \<and>
   fst (snd (to_representation_call d ctx instance)) = instance \<and>
   snd (snd (to_representation_call d ctx instance)) = d"
  by (simp add: to_representation_call_def)

text \<open>
  Against claim C4 as it stands: bob, who is not the owner, is shown the full dictionary
  of alice's public profile, and the view counter is 7 before the call and 7 after it.
\<close>

theorem view_counter_counterexample:
  "fst (to_representation_call db_carol_follows as_bob public_profile)
     = Inr (super_to_representation db_carol_follows public_profile) \<and>
   User.id' bob \<noteq> Profile.user public_profile \<and>
   profile_views public_profile = 7 \<and>
   profile_views (fst (snd (to_representation_call db_carol_follows as_bob public_profile))) = 7 \<and>
   profile_views (fst (snd (to_representation_call db_carol_follows as_bob public_profile)))
     \<noteq> profile_views public_profile + 1"
  by (simp add: to_representation_call_def to_representation_def as_bob_def bob_def
      public_profile_def private_profile_def)

section \<open>Registration and the one-profile invariant\<close>

lemma create_user_profiles:
  "create_user d k vd = Inr (u, d1) \<Longrightarrow>
     Profile_objects d1 = Profile_objects d \<and> User_objects d1 = User_objects d @ [u] \<and> User.id' u = k
     \<and> k \<notin> set (map User.id' (User_objects d))"
  by (auto simp: create_user_def Let_def filter_empty_conv split: if_splits option.splits)

lemma Profile_objects_create_eq:
  "Profile_objects_create d k t uid = Inr d2 \<Longrightarrow>
     User_objects d2 = User_objects d \<and>
     (\<exists>p. Profile_objects d2 = Profile_objects d @ [p] \<and> Profile.user p = uid) \<and>
     profile_count d uid = 0"
  by (auto simp: Profile_objects_create_def profile_count_def filter_empty_conv split: if_splits)

lemma Role_goc_eq:
  "Role_objects_get_or_create d k t n = Inr (r, d3) \<Longrightarrow>
     User_objects d3 = User_objects d \<and> Profile_objects d3 = Profile_objects d"
  by (auto simp: Role_objects_get_or_create_def Let_def split: if_splits list.splits)

lemma UserRole_create_eq:
  "UserRole_objects_create d t uid rid = Inr d4 \<Longrightarrow>
     User_objects d4 = User_objects d \<and> Profile_objects d4 = Profile_objects d"
  by (auto simp: UserRole_objects_create_def split: if_splits)

lemma inv_cong:
  "User_objects d' = User_objects d \<Longrightarrow> Profile_objects d' = Profile_objects d \<Longrightarrow>
   one_profile_per_user d' = one_profile_per_user d"
  by (simp add: one_profile_per_user_def profile_count_def)

lemma inv_add:
  assumes inv: "one_profile_per_user d" and fresh: "k \<notin> set (map User.id' (User_objects d))"
    and us: "User_objects d2 = User_objects d @ [u]" and uk: "User.id' u = k"
    and ps: "Profile_objects d2 = Profile_objects d @ [p]" and pk: "Profile.user p = k"
  shows "one_profile_per_user d2"
proof -
  from inv have fk: "\<forall>q \<in> set (Profile_objects d). Profile.user q \<in> set (map User.id' (User_objects d))"
    and one: "\<forall>v \<in> set (User_objects d). profile_count d (User.id' v) = 1"
    by (simp_all add: one_profile_per_user_def)
  have none: "filter (\<lambda>q. Profile.user q = k) (Profile_objects d) = []"
    using fk fresh by (auto simp: filter_empty_conv)
  have new: "profile_count d2 k = 1"
    using none by (simp add: profile_count_def ps pk)
  have old: "profile_count d2 (User.id' v) = 1" if "v \<in> set (User_objects d)" for v
  proof -
    from that fresh have "User.id' v \<noteq> k" by auto
    then have "profile_count d2 (User.id' v) = profile_count d (User.id' v)"
      by (simp add: profile_count_def ps pk)
    with one that show ?thesis by simp
  qed
  have fk2: "\<forall>q \<in> set (Profile_objects d2). Profile.user q \<in> set (map User.id' (User_objects d2))"
    using fk by (auto simp: ps us pk uk)
  have one2: "\<forall>v \<in> set (User_objects d2). profile_count d2 (User.id' v) = 1"
    using new old by (auto simp: us uk)
  from fk2 one2 show ?thesis by (simp add: one_profile_per_user_def)
qed

lemma Profile_objects_create_fresh:
  assumes fk: "\<forall>q \<in> set (Profile_objects d). Profile.user q \<in> set (map User.id' (User_objects d))"
    and "uid \<notin> set (map User.id' (User_objects d))"
    and "filter (\<lambda>p. BaseModel.id' p = k) (Profile_objects d) = []"
    and "Profile_objects d1 = Profile_objects d"
  shows "Profile_objects_create d1 k t uid \<noteq> Inl e"
  using assms by (auto simp: Profile_objects_create_def filter_empty_conv)

lemma create_preserves:
  assumes inv: "one_profile_per_user d"
    and fresh: "filter (\<lambda>p. BaseModel.id' p = profile_pk dr) (Profile_objects d) = []"
  shows "one_profile_per_user (snd (create d dr vd))"
proof (cases "create_user d (user_pk dr) vd")
  case (Inl e)
  then show ?thesis using inv by (simp add: create_def)
next
  case (Inr a)
  obtain u d1 where a: "a = (u, d1)" by (cases a)
  from Inr a have cu: "create_user d (user_pk dr) vd = Inr (u, d1)" by simp
  note f1 = create_user_profiles [OF cu]
  from inv have fk: "\<forall>q \<in> set (Profile_objects d). Profile.user q \<in> set (map User.id' (User_objects d))"
    by (simp add: one_profile_per_user_def)
  show ?thesis
  proof (cases "Profile_objects_create d1 (profile_pk dr) (now dr) (User.id' u)")
    case (Inl e)
    with Profile_objects_create_fresh [OF fk _ fresh, of "User.id' u" d1 "now dr" e] f1
    show ?thesis by simp
  next
    case d2: (Inr d2)
    note f2 = Profile_objects_create_eq [OF d2]
    from f2 obtain p where p: "Profile_objects d2 = Profile_objects d1 @ [p]" "Profile.user p = User.id' u"
      by blast
    have inv2: "one_profile_per_user d2"
      by (rule inv_add [where d = d and k = "User.id' u" and u = u and p = p])
        (use inv f1 f2 p in simp_all)
    let ?n = "upper (case validated_data.role vd of None \<Rightarrow> ''user'' | Some r \<Rightarrow> r)"
    show ?thesis
    proof (cases "Role_objects_get_or_create d2 (role_pk dr) (now dr) ?n")
      case (Inl e)
      with cu d2 inv2 show ?thesis by (simp add: create_def)
    next
      case (Inr b)
      obtain r d3 where b: "b = (r, d3)" by (cases b)
      from Inr b have gr: "Role_objects_get_or_create d2 (role_pk dr) (now dr) ?n = Inr (r, d3)"
        by simp
      have inv3: "one_profile_per_user d3"
        using Role_goc_eq [OF gr] inv2 inv_cong [of d3 d2] by simp
      show ?thesis
      proof (cases "UserRole_objects_create d3 (now dr) (User.id' u) (BaseModel.id' r)")
        case (Inl e)
        with cu d2 gr inv3 show ?thesis by (simp add: create_def)
      next
        case d4: (Inr d4)
        have "one_profile_per_user d4"
          using UserRole_create_eq [OF d4] inv3 inv_cong [of d4 d3] by simp
        with cu d2 gr d4 show ?thesis by (simp add: create_def)
      qed
    qed
  qed
qed

lemma step_preserves:
  "one_profile_per_user d \<Longrightarrow> fresh_draw d x \<Longrightarrow> one_profile_per_user (step d x)"
  by (cases x) (simp_all add: create_preserves to_representation_call_def)

lemma run_preserves:
  "one_profile_per_user d \<Longrightarrow> fresh_run d xs \<Longrightarrow> one_profile_per_user (run d xs)"
  by (induction xs arbitrary: d) (simp_all add: step_preserves)


lemma create_success:
  assumes "create d dr vd = (Inr u, d')"
  shows "profile_count d (User.id' u) = 0 \<and> profile_count d' (User.id' u) = 1
       \<and> u \<in> set (User_objects d')"
proof -
  let ?n = "upper (case validated_data.role vd of None \<Rightarrow> ''user'' | Some r \<Rightarrow> r)"
  from assms obtain u1 d1 d2 r d3 where
    cu: "create_user d (user_pk dr) vd = Inr (u1, d1)"
    and pc: "Profile_objects_create d1 (profile_pk dr) (now dr) (User.id' u1) = Inr d2"
    and gr: "Role_objects_get_or_create d2 (role_pk dr) (now dr) ?n = Inr (r, d3)"
    and ur: "UserRole_objects_create d3 (now dr) (User.id' u1) (BaseModel.id' r) = Inr d'"
    and u: "u = u1"
    by (auto simp: create_def split: sum.splits prod.splits)
  note f1 = create_user_profiles [OF cu]
  note f2 = Profile_objects_create_eq [OF pc]
  note f3 = Role_goc_eq [OF gr]
  note f4 = UserRole_create_eq [OF ur]
  from f2 obtain p where p: "Profile_objects d2 = Profile_objects d1 @ [p]"
    "Profile.user p = User.id' u1" by blast
  have before: "profile_count d (User.id' u1) = 0"
    using f1 f2 by (simp add: profile_count_def)
  have "Profile_objects d' = Profile_objects d @ [p]"
    using f1 f3 f4 p by simp
  with before p have after: "profile_count d' (User.id' u1) = 1"
    by (simp add: profile_count_def)
  have "u1 \<in> set (User_objects d')"
    using f1 f2 f3 f4 by simp
  with before after u show ?thesis by simp
qed

text \<open>
  Claim C9. Every identity has exactly one Profile: the empty database satisfies it,
  every run of the service's operations keeps it, and a registration that succeeds finds
  no Profile of the new identity and leaves exactly one. The key that
  \<^verbatim>\<open>uuid.uuid4\<close> draws for a new Profile is taken to be fresh.
\<close>

theorem one_profile_per_identity:
  "one_profile_per_user empty_db \<and>
   (one_profile_per_user d \<and> fresh_run d ops \<longrightarrow> one_profile_per_user (run d ops)) \<and>
   (create d dr vd = (Inr u, d') \<longrightarrow>
      profile_count d (User.id' u) = 0 \<and> profile_count d' (User.id' u) = 1
      \<and> u \<in> set (User_objects d'))"
proof -
  have "one_profile_per_user empty_db"
    by (simp add: one_profile_per_user_def empty_db_def)
  then show ?thesis
    using run_preserves [of d ops] create_success [of d dr vd u d'] by blast
qed

theorem one_profile_per_identity_witness:
  "fresh_run empty_db example_run \<and>
   one_profile_per_user (run empty_db example_run) \<and>
   map User.id' (User_objects (run empty_db example_run)) = [1, 2] \<and>
   map Profile.user (Profile_objects (run empty_db example_run)) = [1, 2]"
proof -
  have e: "one_profile_per_user empty_db"
    using one_profile_per_identity [of empty_db "[]"] by simp
  have f: "fresh_run empty_db example_run" by code_simp
  have u: "map User.id' (User_objects (run empty_db example_run)) = [1, 2]" by code_simp
  have p: "map Profile.user (Profile_objects (run empty_db example_run)) = [1, 2]" by code_simp
  from one_profile_per_identity [of empty_db example_run] e f
  have "one_profile_per_user (run empty_db example_run)" by blast
  with f u p show ?thesis by simp
qed

section \<open>Follow edges\<close>

lemma IsFollowing_after_AddEdge:
  "AddEdge d k t a b = Inr d1 \<Longrightarrow> IsFollowing d1 a b"
  by (auto simp: AddEdge_def IsFollowing_def follow_exists_def split: if_splits)

lemma IsFollowing_after_RemoveEdge:
  "RemoveEdge d a b = Inr d2 \<Longrightarrow> \<not> IsFollowing d2 a b"
  by (auto simp: RemoveEdge_def IsFollowing_def follow_exists_def filter_empty_conv
      split: if_splits)

lemma RemoveEdge_succeeds: "\<exists>d2. RemoveEdge d a b = Inr d2"
  by (simp add: RemoveEdge_def)

lemma RemoveEdge_keeps_no_self_edge:
  "no_self_edge d \<Longrightarrow> RemoveEdge d a b = Inr d' \<Longrightarrow> no_self_edge d'"
  by (auto simp: RemoveEdge_def no_self_edge_def filter_empty_conv split: if_splits)

text \<open>
  The visibility property of the spec: once \<^verbatim>\<open>AddEdge(V, U)\<close> has succeeded, the viewer
  V is shown the full dictionary of U's profile.
\<close>

lemma full_after_AddEdge:
  assumes "AddEdge d k t (User.id' v) (Profile.user p) = Inr d1"
  shows "to_representation d1 (Some \<lparr> request.user = Authenticated v \<rparr>) p
           = Inr (super_to_representation d1 p)"
  using IsFollowing_after_AddEdge [OF assms]
  by (simp add: to_representation_def IsFollowing_def)

text \<open>
  Claim C3. For every identity \<open>a\<close>, \<^verbatim>\<open>AddEdge(a, a)\<close> fails with
  \<^verbatim>\<open>SelfFollowError\<close>; and an \<^verbatim>\<open>AddEdge\<close> that succeeds on a table with no edge from
  a user to the same user leaves such a table, so no such edge is ever created.
\<close>

theorem AddEdge_self_follow:
  "AddEdge d k t a a = Inl SelfFollowError \<and>
   (no_self_edge d \<and> AddEdge d k t a b = Inr d' \<longrightarrow> no_self_edge d')"
  by (auto simp: AddEdge_def no_self_edge_def split: if_splits)

theorem AddEdge_self_follow_witness:
  "AddEdge empty_db 20 2 1 1 = Inl SelfFollowError \<and>
   no_self_edge empty_db \<and>
   AddEdge empty_db 20 2 2 1 = Inr (empty_db \<lparr> Follow_objects := [follow_row 20 2 1] \<rparr>) \<and>
   no_self_edge (empty_db \<lparr> Follow_objects := [follow_row 20 2 1] \<rparr>)"
proof -
  have n: "no_self_edge empty_db" by (simp add: no_self_edge_def empty_db_def)
  have a: "AddEdge empty_db 20 2 2 1 = Inr (empty_db \<lparr> Follow_objects := [follow_row 20 2 1] \<rparr>)"
    by (simp add: AddEdge_def IsFollowing_def follow_exists_def empty_db_def follow_row_def)
  from AddEdge_self_follow [of empty_db 20 2 1] have s: "AddEdge empty_db 20 2 1 1 = Inl SelfFollowError"
    by simp
  from AddEdge_self_follow [of empty_db 20 2 2 1 "empty_db \<lparr> Follow_objects := [follow_row 20 2 1] \<rparr>"] n a
  have "no_self_edge (empty_db \<lparr> Follow_objects := [follow_row 20 2 1] \<rparr>)" by blast
  with n a s show ?thesis by simp
qed

text \<open>
  Claim C7. For two different identities \<open>a\<close> and \<open>b\<close> with no edge between them:
  \<^verbatim>\<open>AddEdge(a, b)\<close> succeeds; the same call right after fails with
  \<^verbatim>\<open>DuplicateEdgeError\<close>; \<^verbatim>\<open>RemoveEdge(a, b)\<close> then succeeds and removes the edge; and
  \<^verbatim>\<open>AddEdge(a, b)\<close> after it succeeds again.
\<close>

theorem AddEdge_duplicate_then_remove:
  assumes "a \<noteq> b" and "\<not> IsFollowing d a b"
  shows "\<exists>d1 d2 d3.
           AddEdge d k t a b = Inr d1 \<and> IsFollowing d1 a b \<and>
           AddEdge d1 k' t' a b = Inl DuplicateEdgeError \<and>
           RemoveEdge d1 a b = Inr d2 \<and> \<not> IsFollowing d2 a b \<and>
           AddEdge d2 k'' t'' a b = Inr d3 \<and> IsFollowing d3 a b"
  using assms by (simp add: AddEdge_def RemoveEdge_def IsFollowing_def follow_exists_def)

theorem AddEdge_duplicate_then_remove_witness:
  "(2::nat) \<noteq> 1 \<and> \<not> IsFollowing db_carol_follows 2 1 \<and>
   (\<exists>d1 d2 d3.
      AddEdge db_carol_follows 21 2 2 1 = Inr d1 \<and> IsFollowing d1 2 1 \<and>
      AddEdge d1 22 3 2 1 = Inl DuplicateEdgeError \<and>
      RemoveEdge d1 2 1 = Inr d2 \<and> \<not> IsFollowing d2 2 1 \<and>
      AddEdge d2 23 4 2 1 = Inr d3 \<and> IsFollowing d3 2 1)"
proof -
  have h: "(2::nat) \<noteq> 1" "\<not> IsFollowing db_carol_follows 2 1"
    by (simp_all add: IsFollowing_def follow_exists_def db_carol_follows_def follow_row_def
        empty_db_def)
  from AddEdge_duplicate_then_remove [OF h, of 21 2 22 3 23 4] h show ?thesis by simp
qed

section \<open>Role resolution and authorization\<close>

lemma level_rank_choices: "map fst ACCESS_LEVEL_CHOICES ! level_rank l = l"
  by (cases l) (simp_all add: ACCESS_LEVEL_CHOICES_def)

lemma level_rank_inj: "level_rank a = level_rank b \<Longrightarrow> a = b"
  by (cases a; cases b) simp_all

lemma max_level_cases: "max_level a b = a \<or> max_level a b = b"
  by (simp add: max_level_def)

lemma max_level_ge:
  "level_rank a \<le> level_rank (max_level a b)" "level_rank b \<le> level_rank (max_level a b)"
  by (simp_all add: max_level_def)

lemma map_of_insert_max:
  "map_of (insert_max (n, l) es) x =
     (if x = n then Some (case map_of es n of None \<Rightarrow> l | Some l' \<Rightarrow> max_level l' l)
      else map_of es x)"
  by (induction es) auto

lemma keys_insert_max:
  "map fst (insert_max (n, l) es) =
     (if n \<in> set (map fst es) then map fst es else map fst es @ [n])"
proof (induction es)
  case Nil
  then show ?case by simp
next
  case (Cons e es)
  obtain n' l' where e: "e = (n', l')" by (cases e)
  show ?case using Cons e by (cases "n = n'") simp_all
qed

lemma distinct_fold_insert_max:
  "distinct (map fst es) \<Longrightarrow> distinct (map fst (fold insert_max gs es))"
proof (induction gs arbitrary: es)
  case Nil
  then show ?case by simp
next
  case (Cons g gs)
  obtain n l where "g = (n, l)" by (cases g)
  with Cons show ?case by (simp add: keys_insert_max)
qed

lemma max_among_cong: "set ls = set ks \<Longrightarrow> max_among ls l = max_among ks l"
  by (simp add: max_among_def)

text \<open>Replacing two levels by the greater of them keeps the maximum.\<close>

lemma max_among_max_level:
  "max_among (max_level l0 k # ls) l = max_among (l0 # k # ls) l"
proof -
  have c: "max_level l0 k = l0 \<or> max_level l0 k = k" by (rule max_level_cases)
  have ge: "level_rank l0 \<le> level_rank (max_level l0 k)"
    "level_rank k \<le> level_rank (max_level l0 k)"
    by (rule max_level_ge)+
  show ?thesis
  proof
    assume a: "max_among (max_level l0 k # ls) l"
    then have "level_rank (max_level l0 k) \<le> level_rank l" by (simp add: max_among_def)
    with ge have "level_rank l0 \<le> level_rank l" "level_rank k \<le> level_rank l" by simp_all
    with a c show "max_among (l0 # k # ls) l"
      by (auto simp: max_among_def)
  next
    assume a: "max_among (l0 # k # ls) l"
    then have b: "level_rank l0 \<le> level_rank l" "level_rank k \<le> level_rank l"
      and g: "\<forall>x \<in> set ls. level_rank x \<le> level_rank l"
      and m: "l = l0 \<or> l = k \<or> l \<in> set ls"
      by (auto simp: max_among_def)
    from c b have le: "level_rank (max_level l0 k) \<le> level_rank l" by auto
    have "l = max_level l0 k \<or> l \<in> set ls"
    proof (cases "l \<in> set ls")
      case True
      then show ?thesis by simp
    next
      case False
      with m have "l = l0 \<or> l = k" by simp
      with ge le have "level_rank l = level_rank (max_level l0 k)" by auto
      then show ?thesis by (simp add: level_rank_inj)
    qed
    with le g show "max_among (max_level l0 k # ls) l"
      by (auto simp: max_among_def)
  qed
qed

text \<open>
  The table after a run of \<open>insert_max\<close>: the entry of a resource is the maximum of the
  entry it had and the levels inserted for it.
\<close>

lemma fold_insert_max_Some:
  "map_of (fold insert_max gs es) n = Some l \<longleftrightarrow>
     max_among ((case map_of es n of None \<Rightarrow> [] | Some l0 \<Rightarrow> [l0]) @ levels_for gs n) l"
proof (induction gs arbitrary: es)
  case Nil
  then show ?case
    by (cases "map_of es n") (auto simp: max_among_def levels_for_def)
next
  case (Cons g gs)
  obtain m k where g: "g = (m, k)" by (cases g)
  have ih: "map_of (fold insert_max (g # gs) es) n = Some l \<longleftrightarrow>
     max_among ((case map_of (insert_max (m, k) es) n of None \<Rightarrow> [] | Some l0 \<Rightarrow> [l0])
                  @ levels_for gs n) l"
    using Cons [of "insert_max (m, k) es"] g by simp
  show ?case
  proof (cases "m = n")
    case False
    with ih g show ?thesis by (simp add: map_of_insert_max levels_for_def)
  next
    case True
    have G: "levels_for (g # gs) n = k # levels_for gs n"
      using g True by (simp add: levels_for_def)
    show ?thesis
    proof (cases "map_of es n")
      case None
      with ih True G show ?thesis by (simp add: map_of_insert_max)
    next
      case (Some l0)
      with ih True G show ?thesis by (simp add: map_of_insert_max max_among_max_level)
    qed
  qed
qed

lemma fold_insert_max_None:
  "map_of (fold insert_max gs es) n = None \<longleftrightarrow> map_of es n = None \<and> levels_for gs n = []"
proof (induction gs arbitrary: es)
  case Nil
  then show ?case by (simp add: levels_for_def)
next
  case (Cons g gs)
  obtain m l where g: "g = (m, l)" by (cases g)
  show ?case using Cons [of "insert_max (m, l) es"] g
    by (auto simp: map_of_insert_max levels_for_def)
qed

lemma Resolve_no_roles:
  "filter (\<lambda>ur. UserRole.user ur = i) (UserRole_objects d) = [] \<Longrightarrow> Resolve d i = []"
  by (auto simp: Resolve_def grants_def assigned_roles_def filter_empty_conv)

text \<open>
  The two permission classes of the source refuse a caller who is not authenticated, and
  the role test refuses a user with no role assignment. Neither reads \<^verbatim>\<open>is_active\<close>.
\<close>

lemma has_permission_AnonymousUser:
  "\<not> IsAdmin_has_permission d \<lparr> request.user = AnonymousUser \<rparr> \<and>
   \<not> IsNormalUser_has_permission d \<lparr> request.user = AnonymousUser \<rparr>"
  by (simp add: IsAdmin_has_permission_def IsNormalUser_has_permission_def)

lemma IsNormalUser_no_roles:
  "filter (\<lambda>ur. UserRole.user ur = User.id' u) (UserRole_objects d) = [] \<Longrightarrow>
     \<not> IsNormalUser_has_permission d \<lparr> request.user = Authenticated u \<rparr>"
  by (auto simp: IsNormalUser_has_permission_def filter_empty_conv)

text \<open>
  Claim C6. For every identity and every set of role assignments, \<^verbatim>\<open>Resolve\<close> holds
  for a resource the level \<open>l\<close> exactly when \<open>l\<close> is the maximum, in the order
  NONE < VIEW < WRITE < FULL, of the levels that the permissions of the identity's roles
  give for that resource; it holds no entry exactly when they give none; and it holds one
  entry per resource. No permission lowers what another grants.
\<close>

theorem Resolve_union_then_max:
  "(map_of (Resolve d uid) n = Some l \<longleftrightarrow> max_among (levels_for (grants d uid) n) l) \<and>
   (map_of (Resolve d uid) n = None \<longleftrightarrow> levels_for (grants d uid) n = []) \<and>
   distinct (map fst (Resolve d uid))"
  by (simp add: Resolve_def fold_insert_max_Some fold_insert_max_None distinct_fold_insert_max)

theorem Resolve_union_then_max_witness:
  "levels_for (grants db_rbac 1) ''posts'' = [VIEW, FULL, NONE] \<and>
   max_among (levels_for (grants db_rbac 1) ''posts'') FULL \<and>
   Resolve db_rbac 1 = [(''posts'', FULL), (''reels'', NONE)] \<and>
   levels_for (grants db_rbac 1) ''stories'' = [] \<and>
   map_of (Resolve db_rbac 1) ''stories'' = None"
proof -
  have r: "Resolve db_rbac 1 = [(''posts'', FULL), (''reels'', NONE)]" by code_simp
  have g: "levels_for (grants db_rbac 1) ''posts'' = [VIEW, FULL, NONE]" by code_simp
  have s: "levels_for (grants db_rbac 1) ''stories'' = []" by code_simp
  from r have "map_of (Resolve db_rbac 1) ''posts'' = Some FULL" by simp
  with Resolve_union_then_max [of db_rbac 1 "''posts''" FULL]
  have m: "max_among (levels_for (grants db_rbac 1) ''posts'') FULL" by simp
  from s Resolve_union_then_max [of db_rbac 1 "''stories''"]
  have "map_of (Resolve db_rbac 1) ''stories'' = None" by simp
  with r g s m show ?thesis by simp
qed

text \<open>
  Claim C2. \<^verbatim>\<open>Authorize\<close> fails closed: an identity that does not exist, an identity
  that is inactive, and a resource name with no resolved entry for the identity each give
  Deny. \<^verbatim>\<open>Authorize\<close> returns a decision on every input: each lookup that finds nothing
  is a branch that gives Deny, and none raises.
\<close>

theorem Authorize_fails_closed:
  "(fetch_identity d i = Inl NotFoundError \<longrightarrow> Authorize d i n l = Deny) \<and>
   (fetch_identity d i = Inr u \<and> \<not> User.is_active u \<longrightarrow> Authorize d i n l = Deny) \<and>
   (find_entry (Resolve d i) n = Inl NotFoundError \<longrightarrow> Authorize d i n l = Deny) \<and>
   (Authorize d i n l = Allow \<or> Authorize d i n l = Deny)"
  by (auto simp: Authorize_def split: sum.splits store_error.splits)

theorem Authorize_fails_closed_witness:
  "fetch_identity db_rbac 99 = Inl NotFoundError \<and> Authorize db_rbac 99 ''posts'' VIEW = Deny \<and>
   fetch_identity db_rbac 3 = Inr carol \<and> \<not> User.is_active carol \<and>
   Authorize db_rbac 3 ''posts'' VIEW = Deny \<and>
   find_entry (Resolve db_rbac 1) ''stories'' = Inl NotFoundError \<and>
   Authorize db_rbac 1 ''stories'' NONE = Deny \<and>
   Authorize db_rbac 1 ''posts'' WRITE = Allow"
proof -
  have a: "fetch_identity db_rbac 99 = Inl NotFoundError" by code_simp
  have b: "fetch_identity db_rbac 3 = Inr carol" by code_simp
  have c: "\<not> User.is_active carol" by (simp add: carol_def)
  have e: "find_entry (Resolve db_rbac 1) ''stories'' = Inl NotFoundError" by code_simp
  have f: "Authorize db_rbac 1 ''posts'' WRITE = Allow" by code_simp
  from Authorize_fails_closed [of db_rbac 99 "''posts''" VIEW] a
  have a': "Authorize db_rbac 99 ''posts'' VIEW = Deny" by blast
  from Authorize_fails_closed [of db_rbac 3 "''posts''" VIEW carol] b c
  have b': "Authorize db_rbac 3 ''posts'' VIEW = Deny" by blast
  from Authorize_fails_closed [of db_rbac 1 "''stories''" NONE] e
  have e': "Authorize db_rbac 1 ''stories'' NONE = Deny" by blast
  from a a' b c b' e e' f show ?thesis by simp
qed

text \<open>
  Claim C8. An identity with no role assignment is denied by \<^verbatim>\<open>Authorize\<close> for every
  resource name and every required level.
\<close>

theorem Authorize_no_roles_deny:
  assumes "filter (\<lambda>ur. UserRole.user ur = i) (UserRole_objects d) = []"
  shows "Authorize d i n l = Deny"
  using assms
  by (simp add: Authorize_def Resolve_no_roles find_entry_def
      split: sum.splits store_error.splits)

theorem Authorize_no_roles_deny_witness:
  "filter (\<lambda>ur. UserRole.user ur = 2) (UserRole_objects db_rbac) = [] \<and>
   fetch_identity db_rbac 2 = Inr bob \<and> User.is_active bob \<and>
   Authorize db_rbac 2 ''posts'' NONE = Deny \<and>
   Authorize db_rbac 2 ''posts'' FULL = Deny"
proof -
  have h: "filter (\<lambda>ur. UserRole.user ur = 2) (UserRole_objects db_rbac) = []" by code_simp
  have b: "fetch_identity db_rbac 2 = Inr bob" by code_simp
  have c: "User.is_active bob" by (simp add: bob_def)
  from Authorize_no_roles_deny [OF h] h b c show ?thesis by simp
qed

end
